theory Spec2Isabelle
  imports Complex_Main
begin

section \<open>Python values and exceptions\<close>

text \<open>
  The values that flow through the client: the scalar JSON values of a host
  configuration, the results of operations, and the results of
  \<^verbatim>\<open>all_closed()\<close>. Floats and nested containers are not modelled.
\<close>

datatype pyval = PyNone | PyBool bool | PyInt int | PyStr string

text \<open>
  An exception is identified with its class. \<open>OtherError\<close> stands for the
  classes of the caller's own library (for the HTTP client: ConnectTimeout,
  ReadTimeout, ConnectionError).
\<close>

datatype exn =
    CircuitOpenError
  | NoHostsAvailableException
  | AllHostsUnreachableException
  | MaxRetriesReached
  | StopIteration
  | KeyError
  | NameError
  | TypeError
  | AttributeError
  | OtherError string

text \<open>Python's truth value of an object (\<^verbatim>\<open>if x:\<close>).\<close>

fun truthy :: "pyval \<Rightarrow> bool" where
  "truthy PyNone = False"
| "truthy (PyBool b) = b"
| "truthy (PyInt i) = (i \<noteq> 0)"
| "truthy (PyStr s) = (s \<noteq> [])"

text \<open>\<^verbatim>\<open>x == 0\<close>: a bool compares as the integer 0 or 1; None and strings never equal 0.\<close>

fun py_eq_zero :: "pyval \<Rightarrow> bool" where
  "py_eq_zero (PyInt i) = (i = 0)"
| "py_eq_zero (PyBool b) = (\<not> b)"
| "py_eq_zero PyNone = False"
| "py_eq_zero (PyStr s) = False"

text \<open>Decimal rendering of an integer, as \<^verbatim>\<open>str\<close> and \<^verbatim>\<open>format\<close> print it.\<close>

definition digit_char :: "nat \<Rightarrow> char" where
  "digit_char d = ''0123456789'' ! d"

fun str_nat :: "nat \<Rightarrow> string" where
  "str_nat n = (if n < 10 then [digit_char n] else str_nat (n div 10) @ [digit_char (n mod 10)])"

definition str_int :: "int \<Rightarrow> string" where
  "str_int i = (if i < 0 then CHR ''-'' # str_nat (nat (- i)) else str_nat (nat i))"

fun py_str :: "pyval \<Rightarrow> string" where
  "py_str PyNone = ''None''"
| "py_str (PyBool b) = (if b then ''True'' else ''False'')"
| "py_str (PyInt i) = str_int i"
| "py_str (PyStr s) = s"

section \<open>Hostname rendering (service.py)\<close>

text \<open>A host configuration is the dict the registry returns for one node.\<close>

type_synonym config = "string \<rightharpoonup> pyval"

text \<open>\<^verbatim>\<open>d.get(k, default)\<close> and \<^verbatim>\<open>d[k]\<close>.\<close>

definition dict_get :: "('k \<rightharpoonup> 'v) \<Rightarrow> 'k \<Rightarrow> 'v \<Rightarrow> 'v" where
  "dict_get d k dflt = (case d k of None \<Rightarrow> dflt | Some v \<Rightarrow> v)"

definition dict_item :: "('k \<rightharpoonup> 'v) \<Rightarrow> 'k \<Rightarrow> exn + 'v" where
  "dict_item d k = (case d k of None \<Rightarrow> Inl KeyError | Some v \<Rightarrow> Inr v)"

text \<open>
  \<^verbatim>\<open>
  def default_hostname_adapter(config):
      port = config.get('sslPort', 0)
      if port == 0:
          port = config['port']
      return '{scheme}://{address}:{port}'.format(
          scheme='https' if config.get('sslPort', 0) != 0 else 'http',
          address=config['address'],
          port=port)
  \<close>
\<close>

definition default_hostname_adapter :: "config \<Rightarrow> exn + string" where
  "default_hostname_adapter config =
     (let port0 = dict_get config ''sslPort'' (PyInt 0) in
      case (if py_eq_zero port0 then dict_item config ''port'' else Inr port0) of
        Inl e \<Rightarrow> Inl e
      | Inr port \<Rightarrow>
          (let scheme = (if \<not> py_eq_zero (dict_get config ''sslPort'' (PyInt 0))
                         then ''https'' else ''http'') in
           case dict_item config ''address'' of
             Inl e \<Rightarrow> Inl e
           | Inr address \<Rightarrow> Inr (scheme @ ''://'' @ py_str address @ '':'' @ py_str port)))"

section \<open>The host pool (service.py)\<close>

text \<open>
  \<^verbatim>\<open>itertools.cycle\<close> over a list: the items and the position of the next one.
  On an empty list \<^verbatim>\<open>next\<close> raises StopIteration.
\<close>

record 'a cycle =
  cy_items :: "'a list"
  cy_pos :: nat

definition it_cycle :: "'a list \<Rightarrow> 'a cycle" where
  "it_cycle xs = \<lparr>cy_items = xs, cy_pos = 0\<rparr>"

definition cycle_next :: "'a cycle \<Rightarrow> (exn + 'a) \<times> 'a cycle" where
  "cycle_next c =
     (if cy_items c = [] then (Inl StopIteration, c)
      else (Inr (cy_items c ! (cy_pos c mod length (cy_items c))),
            c\<lparr>cy_pos := Suc (cy_pos c) mod length (cy_items c)\<rparr>))"

text \<open>
  \<^verbatim>\<open>
  class UpdateableIterator(object):
      def __init__(self, items, stop_exc=StopIteration):
          self.items = items
          self._iter = it.cycle(items)
          self._stop_exc = stop_exc
      def modify(self, items):
          self.items = items
          self._iter = it.cycle(items)
      def next(self):
          try:
              return next(self._iter)
          except StopIteration:
              raise self._stop_exc()
  \<close>
\<close>

record 'a updateable_iterator =
  ui_items :: "'a list"
  ui_iter :: "'a cycle"
  ui_stop_exc :: exn

definition UpdateableIterator :: "'a list \<Rightarrow> exn \<Rightarrow> 'a updateable_iterator" where
  "UpdateableIterator items stop_exc =
     \<lparr>ui_items = items, ui_iter = it_cycle items, ui_stop_exc = stop_exc\<rparr>"

definition modify :: "'a list \<Rightarrow> 'a updateable_iterator \<Rightarrow> 'a updateable_iterator" where
  "modify items u = u\<lparr>ui_items := items, ui_iter := it_cycle items\<rparr>"

definition ui_next :: "'a updateable_iterator \<Rightarrow> (exn + 'a) \<times> 'a updateable_iterator" where
  "ui_next u =
     (case cycle_next (ui_iter u) of
        (Inl e, c) \<Rightarrow>
          (if e = StopIteration then (Inl (ui_stop_exc u), u\<lparr>ui_iter := c\<rparr>)
           else (Inl e, u\<lparr>ui_iter := c\<rparr>))
      | (Inr x, c) \<Rightarrow> (Inr x, u\<lparr>ui_iter := c\<rparr>))"

text \<open>
  The registry backend (backends/base.py): the abstract members of
  \<^verbatim>\<open>BackendBase\<close> and \<^verbatim>\<open>NonWatchableBase\<close> are the fields; a backend
  is any value of the record.
\<close>

record backend =
  supports_watching :: bool
  update_threshold :: real
  get_children :: "string \<Rightarrow> string list"
  get_node :: "string \<Rightarrow> config"

datatype watcher = Watcher

text \<open>
  \<^verbatim>\<open>random.shuffle\<close>: the result is a permutation of the list, chosen by
  the random draws \<open>rs\<close> (each element is inserted at a drawn position).
\<close>

definition insert_at :: "nat \<Rightarrow> 'a \<Rightarrow> 'a list \<Rightarrow> 'a list" where
  "insert_at n x xs = take n xs @ x # drop n xs"

fun shuffle :: "nat list \<Rightarrow> 'a list \<Rightarrow> 'a list" where
  "shuffle rs [] = []"
| "shuffle [] (x # xs) = x # shuffle [] xs"
| "shuffle (r # rs) (x # xs) = insert_at (r mod Suc (length xs)) x (shuffle rs xs)"

text \<open>
  The state of a \<^verbatim>\<open>BackendServiceProvider\<close>: the attributes its
  constructor assigns, and the random draws its shuffles will consume.
\<close>

record provider =
  p_name :: string
  p_backend :: backend
  p_watcher :: "watcher option"
  p_node :: string
  p_loaded :: bool
  p_hosts :: "config list"
  p_hosts_iter :: "config updateable_iterator"
  p_last_updated :: "real option"
  p_hostname_adapter :: "config \<Rightarrow> exn + string"
  p_entropy :: "nat list"

text \<open>
  \<^verbatim>\<open>
  def __init__(self, name, backend, node=None, hostname_adapter=default_hostname_adapter):
      self.name = name
      self.backend = backend
      self._watcher = None
      self._node = node or name
      self._loaded = False
      self._hosts = []
      self._hosts_iter = UpdateableIterator(self._hosts, NoHostsAvailableException)
      self._last_updated = None
      self._hostname_adapter = hostname_adapter
  \<close>
\<close>

definition BackendServiceProvider ::
  "string \<Rightarrow> backend \<Rightarrow> string option \<Rightarrow> (config \<Rightarrow> exn + string) \<Rightarrow> nat list \<Rightarrow> provider" where
  "BackendServiceProvider name b node adapter rs =
     \<lparr>p_name = name, p_backend = b, p_watcher = None,
      p_node = (case node of None \<Rightarrow> name | Some n \<Rightarrow> (if n = [] then name else n)),
      p_loaded = False, p_hosts = [],
      p_hosts_iter = UpdateableIterator [] NoHostsAvailableException,
      p_last_updated = None, p_hostname_adapter = adapter, p_entropy = rs\<rparr>"

text \<open>
  Reading an attribute of a provider. The instance attributes are those the
  constructor assigns; the class contributes its methods and its property. A
  name that is neither raises AttributeError.
\<close>

datatype attr_value = AttrNone | AttrTime real | AttrObject

definition instance_attributes :: "string list" where
  "instance_attributes =
     [''name'', ''backend'', ''_watcher'', ''_node'', ''_loaded'', ''_hosts'',
      ''_hosts_iter'', ''_last_updated'', ''_hostname_adapter'']"

definition class_attributes :: "string list" where
  "class_attributes =
     [''get_hostname'', ''get_host'', ''_hosts_iterator'', ''_load'', ''_reset_hosts'',
      ''_get_hosts'', ''_watch'', ''_on_children_change'', ''_unwatch'']"

definition provider_getattr :: "provider \<Rightarrow> string \<Rightarrow> exn + attr_value" where
  "provider_getattr p a =
     (if a = ''_last_updated''
      then Inr (case p_last_updated p of None \<Rightarrow> AttrNone | Some t \<Rightarrow> AttrTime t)
      else if a \<in> set instance_attributes \<or> a \<in> set class_attributes then Inr AttrObject
      else Inl AttributeError)"

text \<open>\<^verbatim>\<open>time.time() - x\<close>: a float minus None or an object raises TypeError.\<close>

fun time_minus :: "real \<Rightarrow> attr_value \<Rightarrow> exn + real" where
  "time_minus t (AttrTime u) = Inr (t - u)"
| "time_minus t AttrNone = Inl TypeError"
| "time_minus t AttrObject = Inl TypeError"

text \<open>
  \<^verbatim>\<open>
  def _get_hosts(self):
      hosts = []
      for child in self.backend.get_children(self._node):
          hosts.append(self.backend.get_node(self._node + '/' + child))
      return hosts
  def _reset_hosts(self, hosts):
      self._hosts = hosts
      random.shuffle(self._hosts)
      self._hosts_iter.modify(self._hosts)
      self._last_updated = time.time()
  def _load(self):
      self._reset_hosts(self._get_hosts())
      self._loaded = True
  def _watch(self):
      self._watcher = self.backend.watch_all(self._node, self._on_children_change)
  def _on_children_change(self, children):
      self._reset_hosts(children.values())
  \<close>
  The clock reading \<open>t\<close> is the value of \<^verbatim>\<open>time.time()\<close> during the call.
  The watch callback receives the dict from child name to node data.
\<close>

definition get_hosts :: "provider \<Rightarrow> config list" where
  "get_hosts p =
     map (\<lambda>child. get_node (p_backend p) (p_node p @ ''/'' @ child))
       (get_children (p_backend p) (p_node p))"

definition reset_hosts :: "real \<Rightarrow> config list \<Rightarrow> provider \<Rightarrow> provider" where
  "reset_hosts t hosts p =
     (let hs = shuffle (p_entropy p) hosts in
      p\<lparr>p_hosts := hs, p_hosts_iter := modify hs (p_hosts_iter p),
        p_last_updated := Some t, p_entropy := drop (length hosts) (p_entropy p)\<rparr>)"

definition load :: "real \<Rightarrow> provider \<Rightarrow> provider" where
  "load t p = (reset_hosts t (get_hosts p) p)\<lparr>p_loaded := True\<rparr>"

definition watch :: "provider \<Rightarrow> provider" where
  "watch p = p\<lparr>p_watcher := Some Watcher\<rparr>"

definition on_children_change :: "real \<Rightarrow> (string \<times> config) list \<Rightarrow> provider \<Rightarrow> provider" where
  "on_children_change t children p = reset_hosts t (map snd children) p"

text \<open>
  \<^verbatim>\<open>
  @property
  def _hosts_iterator(self):
      if not self._loaded:
          self._load()
      if self.backend.supports_watching and self._watcher is None:
          self._watch()
      return self._hosts_iter
  \<close>
  The property returns the iterator object held by the provider; the model
  returns the provider after the load and the watch.
\<close>

definition hosts_iterator :: "real \<Rightarrow> provider \<Rightarrow> provider" where
  "hosts_iterator t p =
     (let p1 = (if \<not> p_loaded p then load t p else p) in
      if supports_watching (p_backend p1) \<and> p_watcher p1 = None then watch p1 else p1)"

definition next_host :: "real \<Rightarrow> provider \<Rightarrow> (exn + config) \<times> provider" where
  "next_host t p =
     (let p1 = hosts_iterator t p in
      case ui_next (p_hosts_iter p1) of (r, u) \<Rightarrow> (r, p1\<lparr>p_hosts_iter := u\<rparr>))"

text \<open>
  \<^verbatim>\<open>
  def get_host(self):
      if not self.backend.supports_watching:
          if time.time() - self._last_udpated > self.backend.update_threshold:
              self._reset_hosts(self._get_hosts())
      return next(self._hosts_iterator)
  def get_hostname(self):
      return self._hostname_adapter(self.get_host())
  \<close>
\<close>

definition get_host :: "real \<Rightarrow> provider \<Rightarrow> (exn + config) \<times> provider" where
  "get_host t p =
     (if \<not> supports_watching (p_backend p) then
        (case provider_getattr p ''_last_udpated'' of
           Inl e \<Rightarrow> (Inl e, p)
         | Inr v \<Rightarrow>
             (case time_minus t v of
                Inl e \<Rightarrow> (Inl e, p)
              | Inr elapsed \<Rightarrow>
                  next_host t
                    (if elapsed > update_threshold (p_backend p)
                     then reset_hosts t (get_hosts p) p else p)))
      else next_host t p)"

definition provider_get_hostname :: "real \<Rightarrow> provider \<Rightarrow> (exn + string) \<times> provider" where
  "provider_get_hostname t p =
     (case get_host t p of
        (Inl e, p1) \<Rightarrow> (Inl e, p1)
      | (Inr config, p1) \<Rightarrow> (p_hostname_adapter p1 config, p1))"

section \<open>Circuit breakers (breaker.py)\<close>

text \<open>
  Modelled from the spec: the \<^verbatim>\<open>circuit\<close> library (CircuitBreaker and
  the base CircuitBreakerSet) is imported by breaker.py and is not part of the
  sources. Its breaker is the state machine of the specification: closed
  breakers count countable failures and open when the configured count is
  reached; an open breaker rejects a test until its cool-down has elapsed and
  then becomes half-open; a half-open breaker closes on a success and opens on
  a failure.
\<close>

datatype breaker_state = Closed | Open | HalfOpen

record breaker =
  cb_state :: breaker_state
  cb_failures :: nat
  cb_last_change :: real

definition new_breaker :: "real \<Rightarrow> breaker" where
  "new_breaker t = \<lparr>cb_state = Closed, cb_failures = 0, cb_last_change = t\<rparr>"

text \<open>
  Modelled from the spec: \<^verbatim>\<open>CircuitBreaker.test()\<close> of the circuit
  library, which raises CircuitOpenError for an open breaker whose cool-down
  has not elapsed and returns the state otherwise.
\<close>

definition cb_test :: "real \<Rightarrow> real \<Rightarrow> breaker \<Rightarrow> exn + breaker" where
  "cb_test reset_timeout t b =
     (if cb_state b = Open then
        (if t - cb_last_change b < reset_timeout then Inl CircuitOpenError
         else Inr (b\<lparr>cb_state := HalfOpen\<rparr>))
      else Inr b)"

text \<open>Modelled from the spec: recording a success of the circuit library's breaker.\<close>

definition cb_success :: "real \<Rightarrow> breaker \<Rightarrow> breaker" where
  "cb_success t b =
     (if cb_state b = HalfOpen
      then b\<lparr>cb_state := Closed, cb_failures := 0, cb_last_change := t\<rparr>
      else b\<lparr>cb_failures := 0\<rparr>)"

text \<open>Modelled from the spec: recording a countable failure of the circuit library's breaker.\<close>

definition cb_error :: "nat \<Rightarrow> real \<Rightarrow> breaker \<Rightarrow> breaker" where
  "cb_error maxfail t b =
     (case cb_state b of
        Closed \<Rightarrow>
          (if Suc (cb_failures b) \<ge> maxfail
           then b\<lparr>cb_state := Open, cb_failures := Suc (cb_failures b), cb_last_change := t\<rparr>
           else b\<lparr>cb_failures := Suc (cb_failures b)\<rparr>)
      | HalfOpen \<Rightarrow> b\<lparr>cb_state := Open, cb_last_change := t\<rparr>
      | Open \<Rightarrow> b)"

text \<open>
  The state of a CircuitBreakerSet: the dict \<^verbatim>\<open>self.circuits\<close> in
  insertion order, the list \<^verbatim>\<open>self.error_types\<close> that
  \<^verbatim>\<open>handle_errors\<close> fills, and the library's thresholds.
\<close>

record breaker_set =
  bs_circuits :: "(string \<times> breaker) list"
  bs_error_types :: "exn list"
  bs_maxfail :: nat
  bs_reset_timeout :: real

text \<open>
  \<^verbatim>\<open>
  def __init__(self, errors, logger=None):
      logger = logger or logging.getLogger('circuit-breaker')
      super(CircuitBreakerSet, self).__init__(time.time, logger)
      self.handle_errors(errors)
  \<close>
  The thresholds are the library's defaults, taken as parameters.
\<close>

definition CircuitBreakerSet :: "exn list \<Rightarrow> nat \<Rightarrow> real \<Rightarrow> breaker_set" where
  "CircuitBreakerSet errors maxfail reset_timeout =
     \<lparr>bs_circuits = [], bs_error_types = errors, bs_maxfail = maxfail,
      bs_reset_timeout = reset_timeout\<rparr>"

text \<open>
  \<^verbatim>\<open>
  def test(self):
      '''Raises CircuitOpenError if any of them are open otherwise everying OK.'''
      return [circuit.test() for circuit in self.circuits.values()]
  \<close>
  The comprehension tests the breakers in turn and stops at the first that
  raises; the breakers tested before it keep the state their test left.
\<close>

fun test_circuits ::
  "real \<Rightarrow> real \<Rightarrow> (string \<times> breaker) list \<Rightarrow> (exn + breaker_state list) \<times> (string \<times> breaker) list" where
  "test_circuits rt t [] = (Inr [], [])"
| "test_circuits rt t ((k, b) # cs) =
     (case cb_test rt t b of
        Inl e \<Rightarrow> (Inl e, (k, b) # cs)
      | Inr b' \<Rightarrow>
          (case test_circuits rt t cs of
             (Inl e, cs') \<Rightarrow> (Inl e, (k, b') # cs')
           | (Inr sts, cs') \<Rightarrow> (Inr (cb_state b' # sts), (k, b') # cs')))"

definition bs_test :: "real \<Rightarrow> breaker_set \<Rightarrow> (exn + breaker_state list) \<times> breaker_set" where
  "bs_test t s =
     (case test_circuits (bs_reset_timeout s) t (bs_circuits s) of
        (r, cs) \<Rightarrow> (r, s\<lparr>bs_circuits := cs\<rparr>))"

text \<open>
  \<^verbatim>\<open>
  def all_closed(self):
      try:
          self.test()
      except circuit.CircuitOpenError:
          return False
  \<close>
  When \<^verbatim>\<open>test()\<close> returns, the function ends without a return statement:
  its value is None.
\<close>

definition all_closed :: "real \<Rightarrow> breaker_set \<Rightarrow> (exn + pyval) \<times> breaker_set" where
  "all_closed t s =
     (case bs_test t s of
        (Inl e, s') \<Rightarrow> (if e = CircuitOpenError then (Inr (PyBool False), s') else (Inl e, s'))
      | (Inr sts, s') \<Rightarrow> (Inr PyNone, s'))"

text \<open>
  Modelled from the spec: \<^verbatim>\<open>context(host)\<close> of the circuit library, the
  monitored scope of one attempt. The breaker of an unseen host is created
  closed. Entering tests the breaker; leaving records a success, or a failure
  when the error is countable, and lets every error propagate.
\<close>

definition circuit_of :: "real \<Rightarrow> string \<Rightarrow> (string \<times> breaker) list \<Rightarrow> breaker" where
  "circuit_of t host cs = (case map_of cs host of None \<Rightarrow> new_breaker t | Some b \<Rightarrow> b)"

definition put_circuit :: "string \<Rightarrow> breaker \<Rightarrow> (string \<times> breaker) list \<Rightarrow> (string \<times> breaker) list" where
  "put_circuit host b cs =
     (if host \<in> fst ` set cs then map (\<lambda>(k, v). if k = host then (k, b) else (k, v)) cs
      else cs @ [(host, b)])"

definition context_enter :: "real \<Rightarrow> string \<Rightarrow> breaker_set \<Rightarrow> (exn + unit) \<times> breaker_set" where
  "context_enter t host s =
     (let b = circuit_of t host (bs_circuits s) in
      case cb_test (bs_reset_timeout s) t b of
        Inl e \<Rightarrow> (Inl e, s\<lparr>bs_circuits := put_circuit host b (bs_circuits s)\<rparr>)
      | Inr b' \<Rightarrow> (Inr (), s\<lparr>bs_circuits := put_circuit host b' (bs_circuits s)\<rparr>))"

definition context_exit :: "real \<Rightarrow> string \<Rightarrow> exn option \<Rightarrow> breaker_set \<Rightarrow> breaker_set" where
  "context_exit t host raised s =
     (let b = circuit_of t host (bs_circuits s) in
      case raised of
        None \<Rightarrow> s\<lparr>bs_circuits := put_circuit host (cb_success t b) (bs_circuits s)\<rparr>
      | Some e \<Rightarrow>
          (if e \<in> set (bs_error_types s)
           then s\<lparr>bs_circuits := put_circuit host (cb_error (bs_maxfail s) t b) (bs_circuits s)\<rparr>
           else s))"

section \<open>The retrying client (client.py)\<close>

type_synonym kwargs = "string \<rightharpoonup> pyval"

text \<open>
  A Python function as the client sees it: given how many calls were made
  before this one, the positional and the keyword arguments, it returns a
  value or raises.
\<close>

type_synonym func = "nat \<Rightarrow> pyval list \<Rightarrow> kwargs \<Rightarrow> exn + pyval"

text \<open>
  \<^verbatim>\<open>
  class Retriable(object):
      def __init__(self, func, *args, **kwargs):
          self.func = func
          self.args = args
          self.kwargs = kwargs
      def __call__(self, **new_kwargs):
          kwargs = self.kwargs.copy()
          kwargs.update(new_kwargs)
          return self.func(*self.args, **kwargs)
  \<close>
  \<^verbatim>\<open>self.kwargs\<close> is a reference to a dict object: the record holds its
  address in the store of dicts.
\<close>

record retriable =
  r_func :: func
  r_args :: "pyval list"
  r_kwargs :: nat

text \<open>
  \<^verbatim>\<open>
  class SmartClient(object):
      def __init__(self, name, error_types=None, hosts_provider=None, hosts=None):
          self.name = name
          self.error_types = error_types
          self.breakers = CircuitBreakerSet(error_types or [])
          self._hosts_iter = it.cycle(hosts) if hosts else None
          self._hosts_provider = hosts_provider
  \<close>
\<close>

record client =
  c_name :: string
  c_error_types :: "exn list option"
  c_breakers :: breaker_set
  c_hosts_iter :: "string cycle option"
  c_hosts_provider :: "provider option"

definition SmartClient ::
  "string \<Rightarrow> exn list option \<Rightarrow> provider option \<Rightarrow> string list option \<Rightarrow> nat \<Rightarrow> real \<Rightarrow> client" where
  "SmartClient name error_types hosts_provider hosts maxfail reset_timeout =
     \<lparr>c_name = name, c_error_types = error_types,
      c_breakers =
        CircuitBreakerSet (case error_types of None \<Rightarrow> [] | Some es \<Rightarrow> es) maxfail reset_timeout,
      c_hosts_iter =
        (case hosts of None \<Rightarrow> None | Some hs \<Rightarrow> (if hs = [] then None else Some (it_cycle hs))),
      c_hosts_provider = hosts_provider\<rparr>"

text \<open>
  Everything a call of \<^verbatim>\<open>retry\<close> reads and changes: the clock, the
  sleeps made so far, the invocations of the retriable's function so far (its
  positional and keyword arguments), the store of dict objects with its next
  free address, and the client.
\<close>

record world =
  w_now :: real
  w_sleeps :: "real list"
  w_calls :: "(pyval list \<times> kwargs) list"
  w_heap :: "nat \<Rightarrow> kwargs"
  w_next_free :: nat
  w_client :: client

text \<open>\<^verbatim>\<open>time.sleep(d)\<close>: the delay is recorded and the clock advances by it.\<close>

definition time_sleep :: "real \<Rightarrow> world \<Rightarrow> world" where
  "time_sleep d w = w\<lparr>w_now := w_now w + d, w_sleeps := w_sleeps w @ [d]\<rparr>"

text \<open>\<^verbatim>\<open>d.copy()\<close> allocates a new dict; \<^verbatim>\<open>d.update(e)\<close> changes \<open>d\<close> in place.\<close>

definition dict_copy :: "nat \<Rightarrow> world \<Rightarrow> nat \<times> world" where
  "dict_copy a w =
     (w_next_free w,
      w\<lparr>w_heap := (w_heap w)(w_next_free w := w_heap w a), w_next_free := Suc (w_next_free w)\<rparr>)"

definition dict_update :: "nat \<Rightarrow> kwargs \<Rightarrow> world \<Rightarrow> world" where
  "dict_update a new w = w\<lparr>w_heap := (w_heap w)(a := w_heap w a ++ new)\<rparr>"

definition Retriable :: "func \<Rightarrow> pyval list \<Rightarrow> kwargs \<Rightarrow> world \<Rightarrow> retriable \<times> world" where
  "Retriable f args kw w =
     (\<lparr>r_func = f, r_args = args, r_kwargs = w_next_free w\<rparr>,
      w\<lparr>w_heap := (w_heap w)(w_next_free w := kw), w_next_free := Suc (w_next_free w)\<rparr>)"

text \<open>Calling the function: the call is logged with the arguments it received.\<close>

definition invoke :: "func \<Rightarrow> pyval list \<Rightarrow> kwargs \<Rightarrow> world \<Rightarrow> (exn + pyval) \<times> world" where
  "invoke f args kw w = (f (length (w_calls w)) args kw, w\<lparr>w_calls := w_calls w @ [(args, kw)]\<rparr>)"

definition Retriable_call :: "retriable \<Rightarrow> kwargs \<Rightarrow> world \<Rightarrow> (exn + pyval) \<times> world" where
  "Retriable_call r new_kwargs w =
     (case dict_copy (r_kwargs r) w of
        (a, w1) \<Rightarrow>
          (let w2 = dict_update a new_kwargs w1 in
           invoke (r_func r) (r_args r) (w_heap w2 a) w2))"

text \<open>
  \<^verbatim>\<open>
  def get_hostname(self):
      if self._hosts_provider:
          return self._hosts_provider.get_hostname()
      else:
          return next(self._hosts_iter)
  \<close>
  \<^verbatim>\<open>next(None)\<close> raises TypeError.
\<close>

definition get_hostname :: "world \<Rightarrow> (exn + string) \<times> world" where
  "get_hostname w =
     (case c_hosts_provider (w_client w) of
        Some p \<Rightarrow>
          (case provider_get_hostname (w_now w) p of
             (r, p') \<Rightarrow> (r, w\<lparr>w_client := (w_client w)\<lparr>c_hosts_provider := Some p'\<rparr>\<rparr>))
      | None \<Rightarrow>
          (case c_hosts_iter (w_client w) of
             None \<Rightarrow> (Inl TypeError, w)
           | Some c \<Rightarrow>
               (case cycle_next c of
                  (r, c') \<Rightarrow> (r, w\<lparr>w_client := (w_client w)\<lparr>c_hosts_iter := Some c'\<rparr>\<rparr>))))"

text \<open>The breaker set of the client, read and written through the world.\<close>

definition breakers :: "world \<Rightarrow> breaker_set" where
  "breakers w = c_breakers (w_client w)"

definition set_breakers :: "breaker_set \<Rightarrow> world \<Rightarrow> world" where
  "set_breakers s w = w\<lparr>w_client := (w_client w)\<lparr>c_breakers := s\<rparr>\<rparr>"

text \<open>
  The \<^verbatim>\<open>backoff\<close> argument: None, a number, or a callable evaluated before
  each sleep (its value may depend on how many sleeps were made before).
\<close>

datatype backoff = NoBackoff | FixedBackoff real | CallableBackoff "nat \<Rightarrow> real"

fun backoff_truthy :: "backoff \<Rightarrow> bool" where
  "backoff_truthy NoBackoff = False"
| "backoff_truthy (FixedBackoff d) = (d \<noteq> 0)"
| "backoff_truthy (CallableBackoff f) = True"

fun backoff_delay :: "backoff \<Rightarrow> world \<Rightarrow> real" where
  "backoff_delay NoBackoff w = 0"
| "backoff_delay (FixedBackoff d) w = d"
| "backoff_delay (CallableBackoff f) w = f (length (w_sleeps w))"

text \<open>
  \<^verbatim>\<open>
  if backoff and i < max_tries:  # Don't sleep after last attempt
      time.sleep(backoff() if callable(backoff) else backoff)
  \<close>
\<close>

definition backoff_sleep :: "backoff \<Rightarrow> int \<Rightarrow> int \<Rightarrow> world \<Rightarrow> world" where
  "backoff_sleep bo i max_tries w =
     (if backoff_truthy bo \<and> i < max_tries then time_sleep (backoff_delay bo w) w else w)"

text \<open>What one pass through the body of the loop decides.\<close>

datatype attempt_result = Return pyval | Raise exn | Next

text \<open>
  The handlers of the try statement:
  \<^verbatim>\<open>
  except CircuitOpenError:
      if self.breakers.all_closed():
          raise AllHostsUnreachable('All hosts unreachable for %s' % self.name)
      logger.warning('Silenced request failure for host %s due to CircuitOpenError.', host)
  except tuple(self.breakers.error_types) as e:
      logger.warning('Silenced %s for host %s.', e, host)
  \<close>
  client.py imports \<^verbatim>\<open>AllHostsUnreachableException\<close>; the name
  \<^verbatim>\<open>AllHostsUnreachable\<close> is not defined, so evaluating it raises NameError.
\<close>

definition handle_error :: "exn \<Rightarrow> world \<Rightarrow> attempt_result \<times> world" where
  "handle_error e w =
     (if e = CircuitOpenError then
        (case all_closed (w_now w) (breakers w) of
           (Inl e', s) \<Rightarrow> (Raise e', set_breakers s w)
         | (Inr v, s) \<Rightarrow>
             (if truthy v then (Raise NameError, set_breakers s w)
              else (Next, set_breakers s w)))
      else if e \<in> set (bs_error_types (breakers w)) then (Next, w)
      else (Raise e, w))"

text \<open>
  The try statement of one attempt:
  \<^verbatim>\<open>
  try:
      logger.info('Attempting %s for host %s ...' % (retriable, host))
      with self.breakers.context(host):
          if send_host:
              return retriable(host=host)
          else:
              return retriable()
  except ...
  \<close>
\<close>

definition attempt :: "retriable \<Rightarrow> bool \<Rightarrow> string \<Rightarrow> world \<Rightarrow> attempt_result \<times> world" where
  "attempt r send_host host w =
     (case context_enter (w_now w) host (breakers w) of
        (Inl e, s) \<Rightarrow> handle_error e (set_breakers s w)
      | (Inr u, s) \<Rightarrow>
          (case Retriable_call r (if send_host then [''host'' \<mapsto> PyStr host] else Map.empty)
                  (set_breakers s w) of
             (Inr v, w1) \<Rightarrow>
               (Return v, set_breakers (context_exit (w_now w1) host None (breakers w1)) w1)
           | (Inl e, w1) \<Rightarrow>
               handle_error e
                 (set_breakers (context_exit (w_now w1) host (Some e) (breakers w1)) w1)))"

text \<open>
  The loop of \<^verbatim>\<open>retry\<close> over the attempt numbers still to run:
  \<^verbatim>\<open>
  for i in xrange(1, max_tries + 1):
      host = self.get_hostname()
      try: ...
      if backoff and i < max_tries:  # Don't sleep after last attempt
          time.sleep(backoff() if callable(backoff) else backoff)
  raise MaxRetriesReached('Attempted %d times for %s' % (max_tries, self.name))
  \<close>
\<close>

fun retry_loop ::
  "retriable \<Rightarrow> int \<Rightarrow> backoff \<Rightarrow> bool \<Rightarrow> int list \<Rightarrow> world \<Rightarrow> (exn + pyval) \<times> world" where
  "retry_loop r max_tries bo send_host [] w = (Inl MaxRetriesReached, w)"
| "retry_loop r max_tries bo send_host (i # rest) w =
     (case get_hostname w of
        (Inl e, w1) \<Rightarrow> (Inl e, w1)
      | (Inr host, w1) \<Rightarrow>
          (case attempt r send_host host w1 of
             (Return v, w2) \<Rightarrow> (Inr v, w2)
           | (Raise e, w2) \<Rightarrow> (Inl e, w2)
           | (Next, w2) \<Rightarrow>
               retry_loop r max_tries bo send_host rest (backoff_sleep bo i max_tries w2)))"

text \<open>
  \<^verbatim>\<open>retry\<close> is called with nothing (it returns a partial application of
  itself), with a plain function (it returns the wrapper), or with a Retriable
  (it runs the attempts).
  \<^verbatim>\<open>
  def retry(self, retriable=None, max_tries=3, backoff=None, send_host=False):
      if retriable is None:
          return functools.partial(self.retry, max_tries=max_tries, backoff=backoff, send_host=send_host)
      if not isinstance(retriable, Retriable):
          @functools.wraps(retriable)
          def wrapper(*args, **kwargs):
              _retriable = Retriable(retriable, *args, **kwargs)
              self.retry(_retriable, max_tries=max_tries, backoff=backoff, send_host=send_host)
          return wrapper
      for i in xrange(1, max_tries + 1): ...
  \<close>
\<close>

datatype callee = NoCallee | Function func | RetriableObj retriable

datatype retry_value = Partial int backoff bool | Wrapper func int backoff bool | Result pyval

definition retry :: "callee \<Rightarrow> int \<Rightarrow> backoff \<Rightarrow> bool \<Rightarrow> world \<Rightarrow> (exn + retry_value) \<times> world" where
  "retry c max_tries bo send_host w =
     (case c of
        NoCallee \<Rightarrow> (Inr (Partial max_tries bo send_host), w)
      | Function f \<Rightarrow> (Inr (Wrapper f max_tries bo send_host), w)
      | RetriableObj r \<Rightarrow>
          (case retry_loop r max_tries bo send_host [1..max_tries] w of
             (Inl e, w') \<Rightarrow> (Inl e, w')
           | (Inr v, w') \<Rightarrow> (Inr (Result v), w')))"

text \<open>
  Calling the wrapper that \<^verbatim>\<open>retry\<close> returned for a function: the body of
  \<^verbatim>\<open>wrapper\<close> has no return statement, so a call that completes has the
  value None.
\<close>

definition call_wrapper ::
  "func \<Rightarrow> int \<Rightarrow> backoff \<Rightarrow> bool \<Rightarrow> pyval list \<Rightarrow> kwargs \<Rightarrow> world \<Rightarrow> (exn + pyval) \<times> world" where
  "call_wrapper f max_tries bo send_host args kw w =
     (case Retriable f args kw w of
        (r, w1) \<Rightarrow>
          (case retry (RetriableObj r) max_tries bo send_host w1 of
             (Inl e, w2) \<Rightarrow> (Inl e, w2)
           | (Inr v, w2) \<Rightarrow> (Inr PyNone, w2)))"

section \<open>Runs and scenarios\<close>

text \<open>
  Calling a Retriable once for each element of a list of overrides, in order.
\<close>

fun call_each :: "retriable \<Rightarrow> kwargs list \<Rightarrow> world \<Rightarrow> world" where
  "call_each r [] w = w"
| "call_each r (kw # kws) w = call_each r kws (snd (Retriable_call r kw w))"

text \<open>
  A run of the loop in which every attempt reaches the operation: the host is
  selected, and the breaker of the host lets the attempt through. The
  predicate follows the run of \<open>retry_loop\<close> from the same state.
\<close>

fun attempts_reach_operation ::
  "retriable \<Rightarrow> int \<Rightarrow> backoff \<Rightarrow> bool \<Rightarrow> int list \<Rightarrow> world \<Rightarrow> bool" where
  "attempts_reach_operation r max_tries bo send_host [] w = True"
| "attempts_reach_operation r max_tries bo send_host (i # rest) w =
     (case get_hostname w of
        (Inl e, w1) \<Rightarrow> False
      | (Inr host, w1) \<Rightarrow>
          (case context_enter (w_now w1) host (breakers w1) of
             (Inl e, s) \<Rightarrow> False
           | (Inr u, s) \<Rightarrow>
               (case attempt r send_host host w1 of
                  (Next, w2) \<Rightarrow>
                    attempts_reach_operation r max_tries bo send_host rest
                      (backoff_sleep bo i max_tries w2)
                | (other, w2) \<Rightarrow> True)))"

text \<open>Whether some breaker of a set is in a state other than open.\<close>

definition some_not_open :: "breaker_set \<Rightarrow> bool" where
  "some_not_open s = list_ex (\<lambda>(k, b). cb_state b \<noteq> Open) (bs_circuits s)"

text \<open>
  The scenarios the properties are evaluated on. The countable error is the
  requests library's ConnectionError; the breaker thresholds are three
  failures and a cool-down of ten seconds; the clock reads 1.
\<close>

definition connection_error :: exn where
  "connection_error = OtherError ''ConnectionError''"

definition fixed_client :: "string list \<Rightarrow> client" where
  "fixed_client hosts = SmartClient ''service'' (Some [connection_error]) None (Some hosts) 3 10"

definition open_breaker :: breaker where
  "open_breaker = \<lparr>cb_state = Open, cb_failures = 3, cb_last_change = 0\<rparr>"

definition closed_breaker :: breaker where
  "closed_breaker = \<lparr>cb_state = Closed, cb_failures = 0, cb_last_change = 0\<rparr>"

definition with_circuits :: "(string \<times> breaker) list \<Rightarrow> client \<Rightarrow> client" where
  "with_circuits cs c = c\<lparr>c_breakers := (c_breakers c)\<lparr>bs_circuits := cs\<rparr>\<rparr>"

definition world_of :: "client \<Rightarrow> world" where
  "world_of c =
     \<lparr>w_now = 1, w_sleeps = [], w_calls = [], w_heap = (\<lambda>a. Map.empty), w_next_free = 1,
      w_client = c\<rparr>"

text \<open>A Retriable whose keyword dict lives at address 0 of the store.\<close>

definition retriable_of :: "func \<Rightarrow> retriable" where
  "retriable_of f = \<lparr>r_func = f, r_args = [], r_kwargs = 0\<rparr>"

definition always_fails :: func where
  "always_fails n args kw = Inl connection_error"

definition returns_42 :: func where
  "returns_42 n args kw = Inr (PyInt 42)"

definition raises_value_error :: func where
  "raises_value_error n args kw = Inl (OtherError ''ValueError'')"

text \<open>
  Registries without push notifications (with one child, and with none), and
  registries with push notifications (with one child, and with none).
\<close>

definition polling_backend :: backend where
  "polling_backend =
     \<lparr>supports_watching = False, update_threshold = 30,
      get_children = (\<lambda>node. [''a'']),
      get_node = (\<lambda>path. [''address'' \<mapsto> PyStr ''h1'', ''port'' \<mapsto> PyInt 8080])\<rparr>"

definition empty_polling_backend :: backend where
  "empty_polling_backend =
     \<lparr>supports_watching = False, update_threshold = 30,
      get_children = (\<lambda>node. []), get_node = (\<lambda>path. Map.empty)\<rparr>"

definition one_host_watching_backend :: backend where
  "one_host_watching_backend =
     \<lparr>supports_watching = True, update_threshold = 0,
      get_children = (\<lambda>node. [''a'']),
      get_node = (\<lambda>path. [''address'' \<mapsto> PyStr ''h1'', ''port'' \<mapsto> PyInt 8080])\<rparr>"

definition empty_watching_backend :: backend where
  "empty_watching_backend =
     \<lparr>supports_watching = True, update_threshold = 0,
      get_children = (\<lambda>node. []), get_node = (\<lambda>path. Map.empty)\<rparr>"

definition provider_of :: "backend \<Rightarrow> provider" where
  "provider_of b = BackendServiceProvider ''service'' b None default_hostname_adapter []"

definition provider_client :: "provider \<Rightarrow> client" where
  "provider_client p = SmartClient ''service'' (Some [connection_error]) (Some p) None 3 10"

section \<open>What each step of an attempt leaves unchanged\<close>

lemma test_circuits_raises_only_open:
  "fst (test_circuits rt t cs) = Inl e \<Longrightarrow> e = CircuitOpenError"
  by (induction rt t cs rule: test_circuits.induct)
     (auto simp: cb_test_def split: if_splits sum.splits prod.splits)

lemma all_closed_value:
  "fst (all_closed t s) = Inr (PyBool False) \<or> fst (all_closed t s) = Inr PyNone"
  using test_circuits_raises_only_open [of "bs_reset_timeout s" t "bs_circuits s"]
  by (auto simp: all_closed_def bs_test_def split: prod.splits sum.splits)

lemma all_closed_error_types:
  "bs_error_types (snd (all_closed t s)) = bs_error_types s"
  by (auto simp: all_closed_def bs_test_def split: prod.splits sum.splits)

lemma context_enter_error_types:
  "bs_error_types (snd (context_enter t h s)) = bs_error_types s"
  by (auto simp: context_enter_def Let_def split: sum.splits)

lemma context_enter_raises_only_open:
  "fst (context_enter t h s) = Inl e \<Longrightarrow> e = CircuitOpenError"
  by (auto simp: context_enter_def Let_def cb_test_def split: sum.splits if_splits)

lemma context_exit_error_types:
  "bs_error_types (context_exit t h x s) = bs_error_types s"
  by (auto simp: context_exit_def Let_def split: option.splits)

lemma breakers_set_breakers [simp]: "breakers (set_breakers s w) = s"
  by (simp add: breakers_def set_breakers_def)

lemma set_breakers_frame [simp]:
  "w_calls (set_breakers s w) = w_calls w"
  "w_sleeps (set_breakers s w) = w_sleeps w"
  "w_now (set_breakers s w) = w_now w"
  "w_heap (set_breakers s w) = w_heap w"
  "w_next_free (set_breakers s w) = w_next_free w"
  by (simp_all add: set_breakers_def)

lemma get_hostname_frame:
  "w_calls (snd (get_hostname w)) = w_calls w"
  "w_sleeps (snd (get_hostname w)) = w_sleeps w"
  "w_now (snd (get_hostname w)) = w_now w"
  "w_heap (snd (get_hostname w)) = w_heap w"
  "w_next_free (snd (get_hostname w)) = w_next_free w"
  "breakers (snd (get_hostname w)) = breakers w"
  by (auto simp: get_hostname_def breakers_def split: option.splits prod.splits)

lemma Retriable_call_frame:
  "w_sleeps (snd (Retriable_call r kw w)) = w_sleeps w"
  "w_now (snd (Retriable_call r kw w)) = w_now w"
  "breakers (snd (Retriable_call r kw w)) = breakers w"
  "length (w_calls (snd (Retriable_call r kw w))) = Suc (length (w_calls w))"
  by (simp_all add: Retriable_call_def dict_copy_def dict_update_def invoke_def breakers_def
        Let_def)

lemma Retriable_call_result:
  "fst (Retriable_call r kw w)
     = r_func r (length (w_calls w)) (r_args r) (w_heap w (r_kwargs r) ++ kw)"
  by (simp add: Retriable_call_def dict_copy_def dict_update_def invoke_def Let_def)

lemma handle_error_frame:
  "w_sleeps (snd (handle_error e w)) = w_sleeps w"
  "w_calls (snd (handle_error e w)) = w_calls w"
  "w_now (snd (handle_error e w)) = w_now w"
  "bs_error_types (breakers (snd (handle_error e w))) = bs_error_types (breakers w)"
  using all_closed_error_types [of "w_now w" "breakers w"]
  by (auto simp: handle_error_def split: prod.splits sum.splits)

lemma handle_error_open_continues:
  "fst (handle_error CircuitOpenError w) = Next"
  using all_closed_value [of "w_now w" "breakers w"]
  by (auto simp: handle_error_def split: prod.splits sum.splits)

lemma backoff_sleep_frame:
  "w_calls (backoff_sleep bo i mt w) = w_calls w"
  "breakers (backoff_sleep bo i mt w) = breakers w"
  by (simp_all add: backoff_sleep_def time_sleep_def breakers_def)

lemma backoff_sleep_sleeps:
  "w_sleeps (backoff_sleep bo i mt w)
     = (if backoff_truthy bo \<and> i < mt then w_sleeps w @ [backoff_delay bo w] else w_sleeps w)"
  by (simp add: backoff_sleep_def time_sleep_def)

lemma backoff_delay_cong:
  "w_sleeps w' = w_sleeps w \<Longrightarrow> backoff_delay bo w' = backoff_delay bo w"
  by (cases bo) simp_all

lemma attempt_rejected:
  assumes "context_enter (w_now w) h (breakers w) = (Inl e, s)"
  shows "fst (attempt r sh h w) = Next"
    and "w_sleeps (snd (attempt r sh h w)) = w_sleeps w"
    and "w_calls (snd (attempt r sh h w)) = w_calls w"
proof -
  have e: "e = CircuitOpenError"
    using context_enter_raises_only_open [of "w_now w" h "breakers w" e] assms by simp
  have a: "attempt r sh h w = handle_error CircuitOpenError (set_breakers s w)"
    using assms e by (simp add: attempt_def)
  show "fst (attempt r sh h w) = Next"
    by (simp add: a handle_error_open_continues)
  show "w_sleeps (snd (attempt r sh h w)) = w_sleeps w"
    by (simp add: a handle_error_frame)
  show "w_calls (snd (attempt r sh h w)) = w_calls w"
    by (simp add: a handle_error_frame)
qed

section \<open>Evaluating the scenarios\<close>

lemmas scenario_defs =
  connection_error_def fixed_client_def open_breaker_def closed_breaker_def with_circuits_def
  world_of_def retriable_of_def always_fails_def returns_42_def raises_value_error_def
  polling_backend_def empty_polling_backend_def one_host_watching_backend_def
  empty_watching_backend_def provider_of_def provider_client_def
  SmartClient_def CircuitBreakerSet_def BackendServiceProvider_def UpdateableIterator_def
  it_cycle_def

lemmas step_defs =
  get_hostname_def cycle_next_def attempt_def handle_error_def context_enter_def
  context_exit_def all_closed_def bs_test_def cb_test_def cb_error_def cb_success_def
  circuit_of_def put_circuit_def new_breaker_def Retriable_call_def dict_copy_def
  dict_update_def invoke_def breakers_def set_breakers_def backoff_sleep_def time_sleep_def
  retry_def

lemmas pool_defs =
  provider_get_hostname_def get_host_def next_host_def hosts_iterator_def load_def watch_def
  reset_hosts_def get_hosts_def on_children_change_def modify_def ui_next_def
  provider_getattr_def
  instance_attributes_def class_attributes_def

lemma upto_small: "[1..3::int] = [1, 2, 3]" "[1..2::int] = [1, 2]"
  by (simp_all add: upto_rec1)

section \<open>Properties of hostname rendering\<close>

text \<open>
  Claim C4. For a host configuration with an address, hostname rendering
  returns the https address with the secure port when \<^verbatim>\<open>sslPort\<close> is
  present and not zero, and the http address with the plain port when
  \<^verbatim>\<open>sslPort\<close> is absent or zero and \<^verbatim>\<open>port\<close> is present. When no port
  can be read (no \<^verbatim>\<open>port\<close>, and \<^verbatim>\<open>sslPort\<close> absent or zero) it fails
  with KeyError, the error of a missing configuration key.
\<close>

theorem default_hostname_adapter_ports:
  "(config ''sslPort'' = Some p \<and> \<not> py_eq_zero p \<and> config ''address'' = Some a \<longrightarrow>
      default_hostname_adapter config = Inr (''https://'' @ py_str a @ '':'' @ py_str p))
   \<and> ((config ''sslPort'' = None \<or> (\<exists>z. config ''sslPort'' = Some z \<and> py_eq_zero z))
        \<and> config ''port'' = Some q \<and> config ''address'' = Some a \<longrightarrow>
      default_hostname_adapter config = Inr (''http://'' @ py_str a @ '':'' @ py_str q))
   \<and> ((config ''sslPort'' = None \<or> (\<exists>z. config ''sslPort'' = Some z \<and> py_eq_zero z))
        \<and> config ''port'' = None \<longrightarrow>
      default_hostname_adapter config = Inl KeyError)"
proof (intro conjI impI)
  assume "config ''sslPort'' = Some p \<and> \<not> py_eq_zero p \<and> config ''address'' = Some a"
  then show "default_hostname_adapter config = Inr (''https://'' @ py_str a @ '':'' @ py_str p)"
    by (simp add: default_hostname_adapter_def dict_get_def dict_item_def)
next
  assume "(config ''sslPort'' = None \<or> (\<exists>z. config ''sslPort'' = Some z \<and> py_eq_zero z))
        \<and> config ''port'' = Some q \<and> config ''address'' = Some a"
  then show "default_hostname_adapter config = Inr (''http://'' @ py_str a @ '':'' @ py_str q)"
    by (auto simp add: default_hostname_adapter_def dict_get_def dict_item_def)
next
  assume "(config ''sslPort'' = None \<or> (\<exists>z. config ''sslPort'' = Some z \<and> py_eq_zero z))
        \<and> config ''port'' = None"
  then show "default_hostname_adapter config = Inl KeyError"
    by (auto simp add: default_hostname_adapter_def dict_get_def dict_item_def)
qed

theorem default_hostname_adapter_ports_witness:
  "default_hostname_adapter
     [''sslPort'' \<mapsto> PyInt 8443, ''port'' \<mapsto> PyInt 8080, ''address'' \<mapsto> PyStr ''h1'']
     = Inr ''https://h1:8443''
   \<and> default_hostname_adapter
     [''sslPort'' \<mapsto> PyInt 0, ''port'' \<mapsto> PyInt 8080, ''address'' \<mapsto> PyStr ''h1'']
     = Inr ''http://h1:8080''
   \<and> default_hostname_adapter [''port'' \<mapsto> PyInt 8080, ''address'' \<mapsto> PyStr ''h1'']
     = Inr ''http://h1:8080''
   \<and> default_hostname_adapter [''address'' \<mapsto> PyStr ''h1''] = Inl KeyError"
proof -
  have s: "py_str (PyInt 8443) = ''8443''" "py_str (PyInt 8080) = ''8080''"
    by (simp_all add: str_int_def digit_char_def)
  have 1: "default_hostname_adapter
     [''sslPort'' \<mapsto> PyInt 8443, ''port'' \<mapsto> PyInt 8080, ''address'' \<mapsto> PyStr ''h1'']
     = Inr ''https://h1:8443''"
    using default_hostname_adapter_ports
      [of "[''sslPort'' \<mapsto> PyInt 8443, ''port'' \<mapsto> PyInt 8080, ''address'' \<mapsto> PyStr ''h1'']"
          "PyInt 8443" "PyStr ''h1''" "PyInt 8080"] s
    by simp
  have 2: "default_hostname_adapter
     [''sslPort'' \<mapsto> PyInt 0, ''port'' \<mapsto> PyInt 8080, ''address'' \<mapsto> PyStr ''h1'']
     = Inr ''http://h1:8080''"
    using default_hostname_adapter_ports
      [of "[''sslPort'' \<mapsto> PyInt 0, ''port'' \<mapsto> PyInt 8080, ''address'' \<mapsto> PyStr ''h1'']"
          "PyInt 0" "PyStr ''h1''" "PyInt 8080"] s
    by simp
  have 3: "default_hostname_adapter [''port'' \<mapsto> PyInt 8080, ''address'' \<mapsto> PyStr ''h1'']
     = Inr ''http://h1:8080''"
    using default_hostname_adapter_ports
      [of "[''port'' \<mapsto> PyInt 8080, ''address'' \<mapsto> PyStr ''h1'']"
          "PyInt 0" "PyStr ''h1''" "PyInt 8080"] s
    by simp
  have 4: "default_hostname_adapter [''address'' \<mapsto> PyStr ''h1''] = Inl KeyError"
    using default_hostname_adapter_ports
      [of "[''address'' \<mapsto> PyStr ''h1'']" "PyInt 0" "PyStr ''h1''" "PyInt 8080"]
    by simp
  from 1 2 3 4 show ?thesis by blast
qed

section \<open>Properties of the Retriable\<close>

lemma Retriable_call_store:
  assumes "r_kwargs r < w_next_free w"
  shows "w_heap (snd (Retriable_call r kw w)) (r_kwargs r) = w_heap w (r_kwargs r)"
    and "r_kwargs r < w_next_free (snd (Retriable_call r kw w))"
    and "w_calls (snd (Retriable_call r kw w))
           = w_calls w @ [(r_args r, w_heap w (r_kwargs r) ++ kw)]"
  using assms
  by (simp_all add: Retriable_call_def dict_copy_def dict_update_def invoke_def Let_def)

text \<open>
  Claim C10. A Retriable is called any number of times, each time with its own
  overrides. The dict it captured is the same afterwards, and each call passes
  the captured positional arguments and the captured keyword arguments
  overridden by the overrides of that call alone. (The function and the
  positional arguments are fields of the Retriable, which no call assigns.)
\<close>

theorem retriable_keeps_captured_arguments:
  assumes "r_kwargs r < w_next_free w"
  shows "w_heap (call_each r kws w) (r_kwargs r) = w_heap w (r_kwargs r)
       \<and> w_calls (call_each r kws w)
           = w_calls w @ map (\<lambda>kw. (r_args r, w_heap w (r_kwargs r) ++ kw)) kws"
  using assms
proof (induction kws arbitrary: w)
  case Nil
  then show ?case by simp
next
  case (Cons kw kws)
  define w1 where "w1 = snd (Retriable_call r kw w)"
  have w1: "w_heap w1 (r_kwargs r) = w_heap w (r_kwargs r)"
    "r_kwargs r < w_next_free w1"
    "w_calls w1 = w_calls w @ [(r_args r, w_heap w (r_kwargs r) ++ kw)]"
    using Retriable_call_store [OF Cons.prems, of kw] by (simp_all add: w1_def)
  show ?case
    using Cons.IH [OF w1(2)] w1(1,3) by (simp add: w1_def [symmetric])
qed

theorem retriable_keeps_captured_arguments_witness:
  "w_heap (call_each (retriable_of returns_42)
             [[''host'' \<mapsto> PyStr ''A''], [''host'' \<mapsto> PyStr ''B'']]
             ((world_of (fixed_client [''A'', ''B'']))
                \<lparr>w_heap := (\<lambda>a. Map.empty)(0 := [''path'' \<mapsto> PyStr ''/x''])\<rparr>)) 0
     = [''path'' \<mapsto> PyStr ''/x'']
   \<and> w_calls (call_each (retriable_of returns_42)
             [[''host'' \<mapsto> PyStr ''A''], [''host'' \<mapsto> PyStr ''B'']]
             ((world_of (fixed_client [''A'', ''B'']))
                \<lparr>w_heap := (\<lambda>a. Map.empty)(0 := [''path'' \<mapsto> PyStr ''/x''])\<rparr>))
     = [([], [''path'' \<mapsto> PyStr ''/x''] ++ [''host'' \<mapsto> PyStr ''A'']),
        ([], [''path'' \<mapsto> PyStr ''/x''] ++ [''host'' \<mapsto> PyStr ''B''])]"
proof -
  define W where "W = (world_of (fixed_client [''A'', ''B'']))
                \<lparr>w_heap := (\<lambda>a. Map.empty)(0 := [''path'' \<mapsto> PyStr ''/x''])\<rparr>"
  have h: "r_kwargs (retriable_of returns_42) < w_next_free W"
    by (simp add: W_def retriable_of_def world_of_def)
  have w0: "w_calls W = []" "w_heap W 0 = [''path'' \<mapsto> PyStr ''/x'']"
    "r_kwargs (retriable_of returns_42) = 0" "r_args (retriable_of returns_42) = []"
    by (simp_all add: W_def retriable_of_def world_of_def)
  show ?thesis
    using retriable_keeps_captured_arguments
      [OF h, of "[[''host'' \<mapsto> PyStr ''A''], [''host'' \<mapsto> PyStr ''B'']]"] w0
    by (simp add: W_def)
qed

lemma call_wrapper_value:
  "fst (call_wrapper f mt bo sh args kw w) = Inr v \<Longrightarrow> v = PyNone"
  by (auto simp: call_wrapper_def split: prod.splits sum.splits)

text \<open>
  Claim C9, at the input where the code departs from it. The function returns
  42 and the host A is healthy. Given the function, \<^verbatim>\<open>retry\<close> returns the
  wrapper; calling the wrapper returns None, while passing the Retriable of
  the same function and arguments to \<^verbatim>\<open>retry\<close>, with the same settings,
  returns 42.
\<close>

theorem wrapper_returns_none:
  "fst (retry (Function returns_42) 3 NoBackoff False (world_of (fixed_client [''A''])))
     = Inr (Wrapper returns_42 3 NoBackoff False)
   \<and> fst (call_wrapper returns_42 3 NoBackoff False [] Map.empty
            (world_of (fixed_client [''A''])))
     = Inr PyNone
   \<and> fst (retry (RetriableObj (fst (Retriable returns_42 [] Map.empty
                                      (world_of (fixed_client [''A''])))))
            3 NoBackoff False
            (snd (Retriable returns_42 [] Map.empty (world_of (fixed_client [''A''])))))
     = Inr (Result (PyInt 42))"
  by (simp add: call_wrapper_def Retriable_def scenario_defs step_defs upto_small)

section \<open>Properties of the breaker set and of the pool\<close>

text \<open>
  Claim C2, at the input where the code departs from it. A breaker set whose
  two breakers are closed: \<^verbatim>\<open>all_closed()\<close> returns None, not True. With
  an open breaker among them it returns False.
\<close>

theorem all_closed_returns_none:
  "fst (all_closed 1 (c_breakers (with_circuits [(''A'', closed_breaker), (''B'', closed_breaker)]
          (fixed_client [''A'', ''B''])))) = Inr PyNone
   \<and> fst (all_closed 1 (c_breakers (with_circuits [(''A'', closed_breaker), (''B'', open_breaker)]
          (fixed_client [''A'', ''B''])))) = Inr (PyBool False)"
  by (simp add: scenario_defs step_defs)

lemma get_host_without_watching:
  "\<not> supports_watching (p_backend p) \<Longrightarrow> get_host t p = (Inl AttributeError, p)"
  by (simp add: get_host_def provider_getattr_def instance_attributes_def class_attributes_def)

text \<open>
  Claim C5, at the input where the code departs from it. A provider over a
  backend without push notifications: \<^verbatim>\<open>get_host()\<close> raises AttributeError
  when it reads \<^verbatim>\<open>self._last_udpated\<close>, whatever the clock and the threshold;
  no host is yielded and the generation is not replaced.
\<close>

theorem get_host_polling_raises:
  "get_host 1 (provider_of polling_backend) = (Inl AttributeError, provider_of polling_backend)
   \<and> get_host 1000 (provider_of polling_backend)
       = (Inl AttributeError, provider_of polling_backend)"
  by (simp add: get_host_without_watching scenario_defs)

section \<open>Properties of the pool on an empty generation\<close>

lemma emptied_iterator_raises:
  "ui_next (modify [] u) = (Inl (ui_stop_exc u), modify [] u)"
  by (simp add: ui_next_def modify_def it_cycle_def cycle_next_def)

lemma provider_stop_exc:
  "ui_stop_exc (p_hosts_iter (BackendServiceProvider n b node a rs)) = NoHostsAvailableException"
  by (simp add: BackendServiceProvider_def UpdateableIterator_def)

lemma reset_hosts_stop_exc:
  "ui_stop_exc (p_hosts_iter (reset_hosts t hs p)) = ui_stop_exc (p_hosts_iter p)"
  by (simp add: reset_hosts_def modify_def Let_def)

lemma reset_hosts_empty:
  "p_hosts (reset_hosts t [] p) = []"
  "p_hosts_iter (reset_hosts t [] p) = modify [] (p_hosts_iter p)"
  "p_loaded (reset_hosts t [] p) = p_loaded p"
  "p_backend (reset_hosts t [] p) = p_backend p"
  by (simp_all add: reset_hosts_def Let_def)

lemma loaded_pool_next:
  assumes "supports_watching (p_backend p)" and "p_loaded p"
  shows "fst (get_host t p) = fst (ui_next (p_hosts_iter p))"
  using assms
  by (simp add: get_host_def next_host_def hosts_iterator_def watch_def Let_def
        split: prod.splits)

text \<open>
  On a push-capable backend the pool does what the claim says. After a
  notification that leaves no children, the next host of a loaded pool is
  NoHostsAvailableException; so is the first host of a pool whose registry has
  no children.
\<close>

lemma emptied_generation_raises:
  assumes "supports_watching (p_backend p)" and "p_loaded p"
    and "ui_stop_exc (p_hosts_iter p) = NoHostsAvailableException"
  shows "fst (get_host t (on_children_change t' [] p)) = Inl NoHostsAvailableException"
proof -
  define q where "q = on_children_change t' [] p"
  have q: "supports_watching (p_backend q)" "p_loaded q"
    "p_hosts_iter q = modify [] (p_hosts_iter p)"
    using assms(1,2) by (simp_all add: q_def on_children_change_def reset_hosts_empty)
  have "fst (get_host t q) = fst (ui_next (modify [] (p_hosts_iter p)))"
    using loaded_pool_next [OF q(1,2), of t] q(3) by simp
  then show ?thesis
    using assms(3) by (simp add: emptied_iterator_raises q_def)
qed

lemma empty_registry_raises:
  assumes "supports_watching (p_backend p)" and "\<not> p_loaded p"
    and "get_children (p_backend p) (p_node p) = []"
    and "ui_stop_exc (p_hosts_iter p) = NoHostsAvailableException"
  shows "fst (get_host t p) = Inl NoHostsAvailableException"
proof -
  have l: "p_hosts_iter (load t p) = modify [] (p_hosts_iter p)"
    using assms(3) by (simp add: load_def get_hosts_def reset_hosts_empty)
  have "fst (get_host t p) = fst (ui_next (modify [] (p_hosts_iter p)))"
    using assms(1,2) l
    by (simp add: get_host_def next_host_def hosts_iterator_def watch_def Let_def load_def
          reset_hosts_def split: prod.splits)
  then show ?thesis
    using assms(4) by (simp add: emptied_iterator_raises)
qed

lemma host_error_ends_retry:
  assumes "get_hostname w = (Inl e, w1)"
  shows "retry_loop r mt bo sh (i # rest) w = (Inl e, w1)
       \<and> w_calls w1 = w_calls w \<and> w_sleeps w1 = w_sleeps w"
  using assms get_hostname_frame(1,2) [of w] by simp

lemma pool_error_ends_retry:
  assumes "c_hosts_provider (w_client w) = Some p"
    and "fst (get_host (w_now w) p) = Inl e"
  shows "fst (retry_loop r mt bo sh (i # rest) w) = Inl e
       \<and> w_calls (snd (retry_loop r mt bo sh (i # rest) w)) = w_calls w
       \<and> w_sleeps (snd (retry_loop r mt bo sh (i # rest) w)) = w_sleeps w"
proof -
  obtain w1 where g: "get_hostname w = (Inl e, w1)"
    using assms
    by (cases "get_host (w_now w) p")
       (simp add: get_hostname_def provider_get_hostname_def)
  show ?thesis
    using host_error_ends_retry [OF g, of r mt bo sh i rest] by simp
qed

text \<open>
  Claim C7, at the input where the code departs from it. A provider over a
  backend without push notifications whose registry has no children: the
  generation is empty, and \<^verbatim>\<open>get_host()\<close>, the pool's next(), raises
  AttributeError, not NoHostsAvailableException; \<^verbatim>\<open>retry\<close> ends at the first
  attempt with that AttributeError. Over a push-capable backend the same
  registry gives NoHostsAvailableException, which \<^verbatim>\<open>retry\<close> propagates at
  the first attempt without calling the operation or sleeping; so does a
  loaded pool whose only host was removed by a notification.
\<close>

theorem empty_polling_pool_raises_attribute_error:
  "p_hosts (provider_of empty_polling_backend) = []
   \<and> fst (get_host 1 (provider_of empty_polling_backend)) = Inl AttributeError
   \<and> fst (retry (RetriableObj (retriable_of returns_42)) 3 (FixedBackoff 5) False
        (world_of (provider_client (provider_of empty_polling_backend))))
      = Inl AttributeError
   \<and> fst (get_host 1 (provider_of empty_watching_backend)) = Inl NoHostsAvailableException
   \<and> fst (retry (RetriableObj (retriable_of returns_42)) 3 (FixedBackoff 5) False
        (world_of (provider_client (provider_of empty_watching_backend))))
      = Inl NoHostsAvailableException
   \<and> w_calls (snd (retry (RetriableObj (retriable_of returns_42)) 3 (FixedBackoff 5) False
        (world_of (provider_client (provider_of empty_watching_backend))))) = []
   \<and> w_sleeps (snd (retry (RetriableObj (retriable_of returns_42)) 3 (FixedBackoff 5) False
        (world_of (provider_client (provider_of empty_watching_backend))))) = []
   \<and> fst (get_host 1 (provider_of one_host_watching_backend))
      = Inr [''address'' \<mapsto> PyStr ''h1'', ''port'' \<mapsto> PyInt 8080]
   \<and> fst (get_host 2 (on_children_change 2 []
        (snd (get_host 1 (provider_of one_host_watching_backend)))))
      = Inl NoHostsAvailableException"
  by (simp add: scenario_defs step_defs pool_defs upto_small Let_def)

section \<open>Properties of the attempt loop\<close>



text \<open>
  Claim C6, as stated, fails. Hosts A and B, the breaker of A open and that of
  B closed, a backoff of 5 seconds, two attempts: the first attempt is
  rejected by the open breaker, the loop sleeps 5 seconds, and the second
  attempt returns 42.
\<close>

theorem rejected_attempt_sleeps_counterexample:
  "fst (context_enter 1 ''A'' (breakers (world_of
      (with_circuits [(''A'', open_breaker), (''B'', closed_breaker)]
         (fixed_client [''A'', ''B'']))))) = Inl CircuitOpenError
   \<and> some_not_open (breakers (world_of
      (with_circuits [(''A'', open_breaker), (''B'', closed_breaker)]
         (fixed_client [''A'', ''B'']))))
   \<and> fst (retry (RetriableObj (retriable_of returns_42)) 2 (FixedBackoff 5) False
       (world_of (with_circuits [(''A'', open_breaker), (''B'', closed_breaker)]
          (fixed_client [''A'', ''B''])))) = Inr (Result (PyInt 42))
   \<and> w_sleeps (snd (retry (RetriableObj (retriable_of returns_42)) 2 (FixedBackoff 5) False
       (world_of (with_circuits [(''A'', open_breaker), (''B'', closed_breaker)]
          (fixed_client [''A'', ''B'']))))) = [5]"
  by (simp add: some_not_open_def scenario_defs step_defs upto_small)

text \<open>
  Claim C6, as the code has it. An attempt whose host's breaker is open, while
  some breaker is not open, goes on to the next attempt without calling the
  operation; before the next attempt the loop sleeps for the backoff exactly
  when a backoff is configured and attempts remain, as it does after a
  countable failure.
\<close>

theorem rejected_attempt_backs_off:
  assumes "get_hostname w = (Inr h, w1)"
    and "context_enter (w_now w1) h (breakers w1) = (Inl CircuitOpenError, s)"
    and "some_not_open s"
  shows "\<exists>w3. retry_loop r mt bo sh (i # rest) w = retry_loop r mt bo sh rest w3
          \<and> w_calls w3 = w_calls w
          \<and> w_sleeps w3 = (if backoff_truthy bo \<and> i < mt
                            then w_sleeps w @ [backoff_delay bo w] else w_sleeps w)"
proof -
  obtain x w2 where at: "attempt r sh h w1 = (x, w2)"
    by (cases "attempt r sh h w1")
  have w1: "w_calls w1 = w_calls w" "w_sleeps w1 = w_sleeps w"
    using get_hostname_frame(1,2) [of w] assms(1) by simp_all
  have x: "x = Next" and w2: "w_sleeps w2 = w_sleeps w" "w_calls w2 = w_calls w"
    using attempt_rejected [OF assms(2), of r sh] at w1 by simp_all
  have step: "retry_loop r mt bo sh (i # rest) w
        = retry_loop r mt bo sh rest (backoff_sleep bo i mt w2)"
    using assms(1) at x by simp
  have d: "backoff_delay bo w2 = backoff_delay bo w"
    using w2(1) by (rule backoff_delay_cong)
  show ?thesis
    using step w2 d
    by (intro exI [of _ "backoff_sleep bo i mt w2"])
       (simp add: backoff_sleep_frame backoff_sleep_sleeps)
qed

theorem rejected_attempt_backs_off_witness:
  "some_not_open (breakers (world_of
      (with_circuits [(''A'', open_breaker), (''B'', closed_breaker)]
         (fixed_client [''A'', ''B'']))))
   \<and> (\<exists>w3. retry_loop (retriable_of returns_42) 2 (FixedBackoff 5) False [1, 2]
          (world_of (with_circuits [(''A'', open_breaker), (''B'', closed_breaker)]
             (fixed_client [''A'', ''B''])))
        = retry_loop (retriable_of returns_42) 2 (FixedBackoff 5) False [2] w3
        \<and> w_calls w3 = [] \<and> w_sleeps w3 = [5])"
proof -
  define W where "W = world_of
      (with_circuits [(''A'', open_breaker), (''B'', closed_breaker)] (fixed_client [''A'', ''B'']))"
  define W1 where "W1 = snd (get_hostname W)"
  define S where "S = snd (context_enter (w_now W1) ''A'' (breakers W1))"
  have h1: "get_hostname W = (Inr ''A'', W1)"
    by (simp add: W1_def W_def scenario_defs step_defs)
  have h2: "context_enter (w_now W1) ''A'' (breakers W1) = (Inl CircuitOpenError, S)"
    by (simp add: S_def W1_def W_def scenario_defs step_defs)
  have h3: "some_not_open S"
    by (simp add: S_def W1_def W_def some_not_open_def scenario_defs step_defs)
  have h0: "some_not_open (breakers W)"
    by (simp add: W_def some_not_open_def scenario_defs step_defs)
  have w0: "w_sleeps W = []" "w_calls W = []"
    by (simp_all add: W_def world_of_def)
  show ?thesis
    using rejected_attempt_backs_off
      [OF h1 h2 h3, of "retriable_of returns_42" 2 "FixedBackoff 5" False 1 "[2]"] w0 h0
    by (simp add: W_def)
qed

text \<open>
  Claim C3, as stated, fails. Hosts A and B, the breaker of A open and that of
  B closed, two attempts, an operation that always raises the countable
  error. Both hosts are selected and the run is never aborted: the first
  attempt is rejected by the open breaker of A and uses up an attempt, so the
  operation is called once, against B, before MaxRetriesReached.
\<close>

theorem rejected_attempt_counts_counterexample:
  "fst (retry (RetriableObj (retriable_of always_fails)) 2 NoBackoff False
      (world_of (with_circuits [(''A'', open_breaker), (''B'', closed_breaker)]
         (fixed_client [''A'', ''B''])))) = Inl MaxRetriesReached
   \<and> length (w_calls (snd (retry (RetriableObj (retriable_of always_fails)) 2 NoBackoff False
      (world_of (with_circuits [(''A'', open_breaker), (''B'', closed_breaker)]
         (fixed_client [''A'', ''B'']))))))
      = 1
   \<and> some_not_open (breakers (snd (retry (RetriableObj (retriable_of always_fails)) 2
      NoBackoff False
      (world_of (with_circuits [(''A'', open_breaker), (''B'', closed_breaker)]
         (fixed_client [''A'', ''B'']))))))"
  by (simp add: some_not_open_def scenario_defs step_defs upto_small)

lemma countable_failures_exhaust_loop:
  assumes "attempts_reach_operation r mt bo sh is w"
    and "\<And>n a kw. \<exists>e. r_func r n a kw = Inl e \<and> e \<in> set E \<and> e \<noteq> CircuitOpenError"
    and "bs_error_types (breakers w) = E"
  shows "fst (retry_loop r mt bo sh is w) = Inl MaxRetriesReached
       \<and> length (w_calls (snd (retry_loop r mt bo sh is w))) = length (w_calls w) + length is"
  using assms(1,3)
proof (induction "is" arbitrary: w)
  case Nil
  then show ?case by simp
next
  case (Cons i rest)
  obtain x w1 where g: "get_hostname w = (x, w1)"
    by (cases "get_hostname w")
  from Cons.prems(1) g obtain h where x: "x = Inr h"
    by (cases x) simp_all
  have w1: "w_calls w1 = w_calls w" "breakers w1 = breakers w"
    using get_hostname_frame(1,6) [of w] g by simp_all
  obtain y s where ce: "context_enter (w_now w1) h (breakers w1) = (y, s)"
    by (cases "context_enter (w_now w1) h (breakers w1)")
  from Cons.prems(1) g x ce have y: "y = Inr ()"
    by (cases y) simp_all
  have s: "bs_error_types s = E"
    using context_enter_error_types [of "w_now w1" h "breakers w1"] ce w1 Cons.prems(2)
    by simp
  define kw where "kw = (if sh then [''host'' \<mapsto> PyStr h] else (Map.empty :: kwargs))"
  obtain z w2 where rc: "Retriable_call r kw (set_breakers s w1) = (z, w2)"
    by (cases "Retriable_call r kw (set_breakers s w1)")
  obtain e where e: "z = Inl e" "e \<in> set E" "e \<noteq> CircuitOpenError"
    using assms(2) [of "length (w_calls (set_breakers s w1))" "r_args r"
        "w_heap (set_breakers s w1) (r_kwargs r) ++ kw"]
      Retriable_call_result [of r kw "set_breakers s w1"] rc
    by auto
  have w2: "breakers w2 = s" "length (w_calls w2) = Suc (length (w_calls w))"
    using Retriable_call_frame(3,4) [of r kw "set_breakers s w1"] rc w1 by simp_all
  define w3 where "w3 = set_breakers (context_exit (w_now w2) h (Some e) s) w2"
  have w3: "bs_error_types (breakers w3) = E" "length (w_calls w3) = Suc (length (w_calls w))"
    using s w2 by (simp_all add: w3_def context_exit_error_types)
  have he: "handle_error e w3 = (Next, w3)"
    using e w3 by (simp add: handle_error_def)
  have at: "attempt r sh h w1 = (Next, w3)"
    using ce y rc e(1) w2 he by (simp add: attempt_def kw_def [symmetric] w3_def)
  define w4 where "w4 = backoff_sleep bo i mt w3"
  have w4: "bs_error_types (breakers w4) = E" "length (w_calls w4) = Suc (length (w_calls w))"
    using w3 by (simp_all add: w4_def backoff_sleep_frame)
  have reach: "attempts_reach_operation r mt bo sh rest w4"
    using Cons.prems(1) g x ce y at by (simp add: w4_def)
  have step: "retry_loop r mt bo sh (i # rest) w = retry_loop r mt bo sh rest w4"
    using g x at by (simp add: w4_def)
  show ?case
    using Cons.IH [OF reach w4(1)] step w4(2) by simp
qed

text \<open>
  Claim C3, as the code has it. When every attempt of the run selects a host
  and is let through by the breaker of that host, and every call of the
  operation raises a countable error, a run with \<^verbatim>\<open>max_tries = N\<close>,
  \<open>N \<ge> 1\<close>, calls the operation exactly \<open>N\<close> times and raises
  MaxRetriesReached.
\<close>

theorem countable_failures_reach_max_retries:
  assumes "1 \<le> N"
    and "attempts_reach_operation r N bo sh [1..N] w"
    and "\<forall>n a kw. \<exists>e. r_func r n a kw = Inl e \<and> e \<in> set (bs_error_types (breakers w))
            \<and> e \<noteq> CircuitOpenError"
  shows "fst (retry (RetriableObj r) N bo sh w) = Inl MaxRetriesReached
       \<and> int (length (w_calls (snd (retry (RetriableObj r) N bo sh w))))
           = int (length (w_calls w)) + N"
proof -
  have l: "fst (retry_loop r N bo sh [1..N] w) = Inl MaxRetriesReached
       \<and> length (w_calls (snd (retry_loop r N bo sh [1..N] w)))
           = length (w_calls w) + length [1..N]"
    using assms(2,3)
    by (intro countable_failures_exhaust_loop [where E = "bs_error_types (breakers w)"])
       simp_all
  obtain x w' where rl: "retry_loop r N bo sh [1..N] w = (x, w')"
    by (cases "retry_loop r N bo sh [1..N] w")
  have "int (length [1..N]) = N"
    using assms(1) by simp
  then show ?thesis
    using l rl by (simp add: retry_def)
qed

theorem countable_failures_reach_max_retries_witness:
  "(1::int) \<le> 3
   \<and> attempts_reach_operation (retriable_of always_fails) 3 NoBackoff False [1..3]
        (world_of (fixed_client [''A'']))
   \<and> fst (retry (RetriableObj (retriable_of always_fails)) 3 NoBackoff False
        (world_of (fixed_client [''A'']))) = Inl MaxRetriesReached
   \<and> length (w_calls (snd (retry (RetriableObj (retriable_of always_fails)) 3 NoBackoff False
        (world_of (fixed_client [''A'']))))) = 3"
proof -
  define W where "W = world_of (fixed_client [''A''])"
  have h1: "(1::int) \<le> 3"
    by simp
  have h2: "attempts_reach_operation (retriable_of always_fails) 3 NoBackoff False [1..3] W"
    by (simp add: W_def scenario_defs step_defs upto_small)
  have h3: "\<forall>n a kw. \<exists>e. r_func (retriable_of always_fails) n a kw = Inl e
              \<and> e \<in> set (bs_error_types (breakers W)) \<and> e \<noteq> CircuitOpenError"
    by (simp add: W_def scenario_defs step_defs)
  have w0: "w_calls W = []"
    by (simp add: W_def world_of_def)
  show ?thesis
    using countable_failures_reach_max_retries [OF h1 h2 h3] h1 h2 w0
    by (simp add: W_def)
qed

text \<open>
  Claim C1, at the input where the code departs from it. The only host is A
  and its breaker is open, so every known breaker is open. The three attempts
  are each rejected by the breaker, the operation is never called, and the
  run ends with MaxRetriesReached, not with AllHostsUnreachableException.
\<close>

theorem all_open_gives_max_retries:
  "\<not> some_not_open (breakers (world_of (with_circuits [(''A'', open_breaker)]
        (fixed_client [''A'']))))
   \<and> fst (context_enter 1 ''A'' (breakers (world_of (with_circuits [(''A'', open_breaker)]
        (fixed_client [''A''])))))  = Inl CircuitOpenError
   \<and> fst (retry (RetriableObj (retriable_of returns_42)) 3 NoBackoff False
        (world_of (with_circuits [(''A'', open_breaker)] (fixed_client [''A'']))))
      = Inl MaxRetriesReached
   \<and> w_calls (snd (retry (RetriableObj (retriable_of returns_42)) 3 NoBackoff False
        (world_of (with_circuits [(''A'', open_breaker)] (fixed_client [''A''])))))
      = []"
  by (simp add: some_not_open_def scenario_defs step_defs upto_small)

end
